theory Spec2Isabelle
  imports Main "HOL-Library.Word"
begin

section \<open>Catalog data\<close>

text \<open>
  The catalog records that \<^verbatim>\<open>App.tsx\<close> reads. Their declarations live in the
  \<^verbatim>\<open>@/api\<close> modules; the fields below are the ones the component accesses.
  An absent (\<^verbatim>\<open>null\<close> or \<^verbatim>\<open>undefined\<close>) value is \<open>None\<close>.
\<close>

datatype version_type = RELEASE | SNAPSHOT

record latest_ref =
  versionId :: "string option"
  projectVersionId :: "string option"

record minecraft_version =
  latest :: latest_ref
  vtype :: "version_type option"
  vbuilds :: nat

record minecraft_type =
  type_identifier :: string
  name :: string
  experimental :: bool
  deprecated :: bool
  tbuilds :: nat

record partial_build =
  build_id :: int
  build_type :: "string option"
  build_versionId :: "string option"
  build_projectVersionId :: "string option"
  buildNumber :: nat
  jarSize :: "nat option"
  zipSize :: "nat option"
  created :: string

datatype js_error = TypeError

datatype api_error = NetworkFailure | NotFound

section \<open>JavaScript helpers\<close>

text \<open>Truthiness of a \<^verbatim>\<open>string | null | undefined\<close>: the empty string is falsy.\<close>

definition truthy :: "string option \<Rightarrow> bool" where
  "truthy s = (case s of None \<Rightarrow> False | Some x \<Rightarrow> x \<noteq> [])"

text \<open>Truthiness of a \<^verbatim>\<open>boolean | null | undefined\<close>.\<close>

definition truthy_bool :: "bool option \<Rightarrow> bool" where
  "truthy_bool b = (case b of None \<Rightarrow> False | Some x \<Rightarrow> x)"

text \<open>\<^verbatim>\<open>a ?? b\<close>\<close>

definition nullish :: "'a option \<Rightarrow> 'a option \<Rightarrow> 'a option" where
  "nullish a b = (case a of Some x \<Rightarrow> Some x | None \<Rightarrow> b)"

text \<open>\<^verbatim>\<open>Array.prototype.findIndex\<close>: the index of the first match, or \<open>-1\<close>.\<close>

fun findIndex :: "('a \<Rightarrow> bool) \<Rightarrow> 'a list \<Rightarrow> int" where
  "findIndex P [] = -1"
| "findIndex P (x # xs) =
     (if P x then 0 else (let i = findIndex P xs in if i < 0 then -1 else i + 1))"

text \<open>\<^verbatim>\<open>xs[i]\<close>: \<^verbatim>\<open>undefined\<close> outside the array.\<close>

definition js_index :: "'a list \<Rightarrow> int \<Rightarrow> 'a option" where
  "js_index xs i = (if 0 \<le> i \<and> i < int (length xs) then Some (xs ! nat i) else None)"

text \<open>
  \<^verbatim>\<open>v.latest.versionId ?? v.latest.projectVersionId\<close>. The catalog populates exactly
  one of the two, so the result is a string; \<open>None\<close> stands for either absent value.
\<close>

definition derived_id :: "minecraft_version \<Rightarrow> string option" where
  "derived_id v = nullish (versionId (latest v)) (projectVersionId (latest v))"

section \<open>Component state\<close>

record app_state =
  includeSnapshots :: "bool option"
  type :: "string option"
  version :: "string option"
  build :: "partial_build option"
  isDragging :: bool
  isJarDropLoading :: bool
  jarDropBuild :: "partial_build option"

definition initial_state :: app_state where
  "initial_state = \<lparr> includeSnapshots = None, type = None, version = None, build = None,
     isDragging = False, isJarDropLoading = False, jarDropBuild = None \<rparr>"

section \<open>Selection: effects and handlers\<close>

text \<open>
  \<^verbatim>\<open>useEffect(() => { if (types && !type) setType(types[0].identifier) }, [types])\<close>.
  Reading \<^verbatim>\<open>.identifier\<close> of \<^verbatim>\<open>undefined\<close> throws.
\<close>

definition types_effect :: "minecraft_type list option \<Rightarrow> app_state \<Rightarrow> js_error + app_state" where
  "types_effect types s =
     (case types of
        None \<Rightarrow> Inr s
      | Some ts \<Rightarrow>
          if \<not> truthy (type s) then
            (case js_index ts 0 of
               None \<Rightarrow> Inl TypeError
             | Some t \<Rightarrow> Inr (s\<lparr>type := Some (type_identifier t)\<rparr>))
          else Inr s)"

text \<open>
  The version auto-select effect: when no entry of \<^verbatim>\<open>versions\<close> has the selected
  identifier, take \<^verbatim>\<open>findIndex\<close> of the first release or untagged entry and select
  \<^verbatim>\<open>versions[index]\<close>. Reading \<^verbatim>\<open>.latest\<close> of \<^verbatim>\<open>undefined\<close> throws.
\<close>

definition release_like :: "minecraft_version \<Rightarrow> bool" where
  "release_like v = (vtype v = Some RELEASE \<or> vtype v = None)"

definition version_effect :: "minecraft_version list option \<Rightarrow> app_state \<Rightarrow> js_error + app_state" where
  "version_effect versions s =
     (case versions of
        None \<Rightarrow> Inr s
      | Some vs \<Rightarrow>
          if List.find (\<lambda>v. derived_id v = version s) vs = None then
            (let index = findIndex release_like vs
             in case js_index vs index of
                  None \<Rightarrow> Inl TypeError
                | Some v \<Rightarrow> Inr (s\<lparr>version := derived_id v\<rparr>))
          else Inr s)"

text \<open>Click handlers of the type, version and build buttons, and of the build drawer.\<close>

definition select_type :: "minecraft_type \<Rightarrow> app_state \<Rightarrow> app_state" where
  "select_type t s = s\<lparr>type := Some (type_identifier t)\<rparr>"

definition select_version :: "minecraft_version \<Rightarrow> app_state \<Rightarrow> app_state" where
  "select_version v s = s\<lparr>version := derived_id v\<rparr>"

definition open_build :: "partial_build \<Rightarrow> app_state \<Rightarrow> app_state" where
  "open_build b s = s\<lparr>build := Some b\<rparr>"

definition build_onOpenChange :: "bool \<Rightarrow> app_state \<Rightarrow> app_state" where
  "build_onOpenChange opn s = s\<lparr>build := (if opn then build s else None)\<rparr>"

definition toggle_snapshots :: "app_state \<Rightarrow> app_state" where
  "toggle_snapshots s = s\<lparr>includeSnapshots := Some (\<not> truthy_bool (includeSnapshots s))\<rparr>"

text \<open>The filter of the rendered version list.\<close>

definition rendered_versions :: "minecraft_version list \<Rightarrow> app_state \<Rightarrow> minecraft_version list" where
  "rendered_versions versions s =
     filter (\<lambda>v. vtype v = None \<or> derived_id v = version s \<or> vtype v = Some RELEASE
                 \<or> (vtype v = Some SNAPSHOT \<and> truthy_bool (includeSnapshots s))) versions"

section \<open>Fingerprint flow: handlers\<close>

text \<open>A dropped file is the byte sequence the reader yields for it.\<close>

type_synonym byte = "8 word"

type_synonym jar_file = "byte list"

definition dragenter :: "app_state \<Rightarrow> app_state" where
  "dragenter s = s\<lparr>isDragging := True\<rparr>"

definition dragover :: "app_state \<Rightarrow> app_state" where
  "dragover s = s\<lparr>isDragging := True\<rparr>"

definition dragleave :: "app_state \<Rightarrow> app_state" where
  "dragleave s = s\<lparr>isDragging := False\<rparr>"

text \<open>
  The drop listener: both flags are written before the payload is inspected; the second
  component is the file handed to the reader, if any.
\<close>

definition drop_handler :: "jar_file list \<Rightarrow> app_state \<Rightarrow> app_state \<times> jar_file option" where
  "drop_handler files s =
     (let s1 = s\<lparr>isDragging := False, isJarDropLoading := True\<rparr>
      in case js_index files 0 of
           None \<Rightarrow> (s1, None)
         | Some f \<Rightarrow> (s1, Some f))"

text \<open>\<^verbatim>\<open>reader.onload\<close>, up to the first \<^verbatim>\<open>await\<close>.\<close>

definition onload_begin :: "app_state \<Rightarrow> app_state" where
  "onload_begin s = s\<lparr>isJarDropLoading := True\<rparr>"

text \<open>The \<^verbatim>\<open>try\<close>/\<^verbatim>\<open>catch\<close> around \<^verbatim>\<open>apiGetBuild\<close>, once the request has settled.\<close>

definition lookup_settled :: "api_error + partial_build \<Rightarrow> app_state \<Rightarrow> app_state" where
  "lookup_settled r s =
     (case r of
        Inr b \<Rightarrow> s\<lparr>jarDropBuild := Some b, isJarDropLoading := False\<rparr>
      | Inl e \<Rightarrow> s\<lparr>isJarDropLoading := False\<rparr>)"

text \<open>\<^verbatim>\<open>onOpenChange\<close> of the fingerprint drawer.\<close>

definition jar_onOpenChange :: "bool \<Rightarrow> app_state \<Rightarrow> app_state" where
  "jar_onOpenChange opn s =
     (if isJarDropLoading s then s
      else (let s1 = s\<lparr>isDragging := opn\<rparr>
            in if \<not> opn then s1\<lparr>jarDropBuild := None\<rparr> else s1))"

text \<open>The flow states of the drawer, read off the three flags.\<close>

definition is_Idle :: "app_state \<Rightarrow> bool" where
  "is_Idle s = (\<not> isDragging s \<and> \<not> isJarDropLoading s \<and> jarDropBuild s = None)"

definition is_Hashing :: "app_state \<Rightarrow> bool" where
  "is_Hashing s = isJarDropLoading s"

text \<open>
  What the fingerprint drawer renders: it is open while any of the three flags holds, and
  shows the prompt when nothing is loading or held, the held build when there is one, and
  the skeleton otherwise.
\<close>

datatype drawer_view = Prompt | Result partial_build | Skeleton

definition jar_drawer_open :: "app_state \<Rightarrow> bool" where
  "jar_drawer_open s = (isDragging s \<or> isJarDropLoading s \<or> jarDropBuild s \<noteq> None)"

definition jar_drawer_content :: "app_state \<Rightarrow> drawer_view" where
  "jar_drawer_content s =
     (if \<not> isJarDropLoading s \<and> jarDropBuild s = None then Prompt
      else (case jarDropBuild s of Some b \<Rightarrow> Result b | None \<Rightarrow> Skeleton))"

section \<open>Digest of a dropped file\<close>

text \<open>
  Modelled from the spec: the digest collaborator. The component calls the platform's
  \<^verbatim>\<open>crypto.subtle.digest('SHA-256', bytes)\<close>; the function below is SHA-256 as the
  standard defines it, on 32-bit words kept as integers with the wrap-around
  (\<open>mod 2 ^ 32\<close>) written out.
\<close>

unbundle bit_operations_syntax

type_synonym u32 = int

definition w32 :: "int \<Rightarrow> u32" where
  "w32 x = x mod 4294967296"

definition rotr :: "nat \<Rightarrow> u32 \<Rightarrow> u32" where
  "rotr n x = x div 2 ^ n + (x mod 2 ^ n) * 2 ^ (32 - n)"

definition Ch :: "u32 \<Rightarrow> u32 \<Rightarrow> u32 \<Rightarrow> u32" where
  "Ch x y z = (x AND y) XOR ((4294967295 - x) AND z)"

definition Maj :: "u32 \<Rightarrow> u32 \<Rightarrow> u32 \<Rightarrow> u32" where
  "Maj x y z = (x AND y) XOR (x AND z) XOR (y AND z)"

definition bsig0 :: "u32 \<Rightarrow> u32" where
  "bsig0 x = rotr 2 x XOR rotr 13 x XOR rotr 22 x"

definition bsig1 :: "u32 \<Rightarrow> u32" where
  "bsig1 x = rotr 6 x XOR rotr 11 x XOR rotr 25 x"

definition ssig0 :: "u32 \<Rightarrow> u32" where
  "ssig0 x = rotr 7 x XOR rotr 18 x XOR (x div 2 ^ 3)"

definition ssig1 :: "u32 \<Rightarrow> u32" where
  "ssig1 x = rotr 17 x XOR rotr 19 x XOR (x div 2 ^ 10)"

definition K256 :: "u32 list" where
  "K256 = [
    1116352408, 1899447441, 3049323471, 3921009573, 961987163, 1508970993, 2453635748, 2870763221,
    3624381080, 310598401, 607225278, 1426881987, 1925078388, 2162078206, 2614888103, 3248222580,
    3835390401, 4022224774, 264347078, 604807628, 770255983, 1249150122, 1555081692, 1996064986,
    2554220882, 2821834349, 2952996808, 3210313671, 3336571891, 3584528711, 113926993, 338241895,
    666307205, 773529912, 1294757372, 1396182291, 1695183700, 1986661051, 2177026350, 2456956037,
    2730485921, 2820302411, 3259730800, 3345764771, 3516065817, 3600352804, 4094571909, 275423344,
    430227734, 506948616, 659060556, 883997877, 958139571, 1322822218, 1537002063, 1747873779,
    1955562222, 2024104815, 2227730452, 2361852424, 2428436474, 2756734187, 3204031479, 3329325298]"

type_synonym hstate = "u32 \<times> u32 \<times> u32 \<times> u32 \<times> u32 \<times> u32 \<times> u32 \<times> u32"

definition H0 :: hstate where
  "H0 = (1779033703, 3144134277, 1013904242, 2773480762,
         1359893119, 2600822924, 528734635, 1541459225)"

text \<open>
  The message schedule is kept as a window of sixteen words: at round \<open>t\<close> it holds
  \<open>W\<^sub>t \<dots> W\<^sub>t\<^sub>+\<^sub>1\<^sub>5\<close>, and \<open>next_w\<close> is \<open>W\<^sub>t\<^sub>+\<^sub>1\<^sub>6\<close>.
\<close>

definition next_w :: "u32 list \<Rightarrow> u32" where
  "next_w w = w32 (ssig1 (w ! 14) + w ! 9 + ssig0 (w ! 1) + w ! 0)"

fun round_step :: "u32 \<Rightarrow> u32 \<Rightarrow> hstate \<Rightarrow> hstate" where
  "round_step k wt (a, b, c, d, e, f, g, h) =
     (let t1 = w32 (h + bsig1 e + Ch e f g + k + wt);
          t2 = w32 (bsig0 a + Maj a b c)
      in (w32 (t1 + t2), a, b, c, w32 (d + t1), e, f, g))"

fun rounds :: "u32 list \<Rightarrow> u32 list \<Rightarrow> hstate \<Rightarrow> hstate" where
  "rounds [] w st = st"
| "rounds (k # ks) w st = rounds ks (tl w @ [next_w w]) (round_step k (hd w) st)"

fun add_state :: "hstate \<Rightarrow> hstate \<Rightarrow> hstate" where
  "add_state (a, b, c, d, e, f, g, h) (a', b', c', d', e', f', g', h') =
     (w32 (a + a'), w32 (b + b'), w32 (c + c'), w32 (d + d'),
      w32 (e + e'), w32 (f + f'), w32 (g + g'), w32 (h + h'))"

definition compress :: "hstate \<Rightarrow> u32 list \<Rightarrow> hstate" where
  "compress st w = add_state st (rounds K256 w st)"

text \<open>Big-endian bytes of a number, and the number a list of big-endian bytes denotes.\<close>

fun be_bytes :: "nat \<Rightarrow> int \<Rightarrow> int list" where
  "be_bytes 0 x = []"
| "be_bytes (Suc n) x = be_bytes n (x div 256) @ [x mod 256]"

definition be_word :: "int list \<Rightarrow> int" where
  "be_word bs = foldl (\<lambda>acc b. acc * 256 + b) 0 bs"

function chunks :: "nat \<Rightarrow> 'a list \<Rightarrow> 'a list list" where
  "chunks n xs = (if n = 0 \<or> xs = [] then [] else take n xs # chunks n (drop n xs))"
  by pat_completeness auto
termination
  by (relation "measure (\<lambda>(n, xs). length xs)") auto

declare chunks.simps [simp del]

text \<open>Padding: the byte \<open>128\<close>, zeros up to 56 modulo 64, the bit length on 64 bits.\<close>

definition pad_message :: "byte list \<Rightarrow> int list" where
  "pad_message bs =
     map uint bs @ [128] @ replicate ((119 - length bs mod 64) mod 64) 0
       @ be_bytes 8 (int (8 * length bs) mod 2 ^ 64)"

definition state_bytes :: "hstate \<Rightarrow> int list" where
  "state_bytes st =
     (case st of (a, b, c, d, e, f, g, h) \<Rightarrow>
        concat (map (be_bytes 4) [a, b, c, d, e, f, g, h]))"

text \<open>The digest as \<^verbatim>\<open>Array.from(new Uint8Array(hash))\<close> holds it: 32 numbers.\<close>

definition sha256 :: "byte list \<Rightarrow> nat list" where
  "sha256 bs =
     map nat (state_bytes
       (foldl compress H0 (map (\<lambda>blk. map be_word (chunks 4 blk)) (chunks 64 (pad_message bs)))))"

text \<open>
  \<^verbatim>\<open>hashArray.map((b) => b.toString(16).padStart(2, '0')).join('')\<close>:
  \<open>toString16\<close> is \<^verbatim>\<open>Number.prototype.toString(16)\<close> on a non-negative integer and
  \<open>padStart\<close> is \<^verbatim>\<open>String.prototype.padStart\<close> with a one-character filler.
\<close>

definition hex_digits :: string where
  "hex_digits = ''0123456789abcdef''"

fun toString16 :: "nat \<Rightarrow> string" where
  "toString16 n =
     (if n < 16 then [hex_digits ! n] else toString16 (n div 16) @ [hex_digits ! (n mod 16)])"

declare toString16.simps [simp del]

definition padStart :: "nat \<Rightarrow> char \<Rightarrow> string \<Rightarrow> string" where
  "padStart n c s = replicate (n - length s) c @ s"

definition hashHex :: "nat list \<Rightarrow> string" where
  "hashHex hashArray = concat (map (\<lambda>b. padStart 2 (CHR ''0'') (toString16 b)) hashArray)"

definition jar_hash :: "jar_file \<Rightarrow> string" where
  "jar_hash bytes = hashHex (sha256 bytes)"

text \<open>The rendering the specification describes: two lowercase hex digits for each byte.\<close>

definition spec_hex :: "nat list \<Rightarrow> string" where
  "spec_hex ds = concat (map (\<lambda>b. [hex_digits ! (b div 16), hex_digits ! (b mod 16)]) ds)"

section \<open>Catalog cache: the fetchers\<close>

datatype api_call =
    ApiGetTypes
  | ApiGetStats
  | ApiGetVersions string
  | ApiGetBuilds string string
  | ApiGetBuild string

text \<open>
  The fetcher closures handed to \<^verbatim>\<open>useSWR\<close>: the request each one issues, or \<open>None\<close>
  where it returns \<^verbatim>\<open>undefined\<close> without calling the catalog.
\<close>

definition types_fetcher :: "api_call option" where
  "types_fetcher = Some ApiGetTypes"

definition stats_fetcher :: "api_call option" where
  "stats_fetcher = Some ApiGetStats"

definition versions_fetcher :: "string option \<Rightarrow> api_call option" where
  "versions_fetcher t =
     (case t of
        Some x \<Rightarrow> if truthy t then Some (ApiGetVersions x) else None
      | None \<Rightarrow> None)"

definition builds_fetcher :: "string option \<Rightarrow> string option \<Rightarrow> api_call option" where
  "builds_fetcher t v =
     (case (t, v) of
        (Some x, Some y) \<Rightarrow> if truthy t \<and> truthy v then Some (ApiGetBuilds x y) else None
      | _ \<Rightarrow> None)"

text \<open>
  Modelled from the spec: the catalog cache (the \<^verbatim>\<open>swr\<close> library) holds, for a key,
  either a request in flight or a settled value; a fetcher that returns without a request
  settles the key at once with no data.
\<close>

datatype 'a key_state = Loading api_call | Settled "'a option"

definition key_state_of :: "api_call option \<Rightarrow> 'a key_state" where
  "key_state_of r = (case r of None \<Rightarrow> Settled None | Some c \<Rightarrow> Loading c)"

section \<open>The page as a transition system\<close>

text \<open>The remote catalog, as the three list endpoints answer.\<close>

record catalog =
  cat_types :: "minecraft_type list"
  cat_versions :: "string \<Rightarrow> minecraft_version list"
  cat_builds :: "string \<Rightarrow> string \<Rightarrow> partial_build list"

text \<open>
  A dropped file goes through the reader, the digest and the lookup; each is awaited, so
  other events may run in between. Nothing removes or cancels an attempt.
\<close>

datatype task = Reading jar_file | Digesting jar_file | Lookup string | Done

record system =
  app :: app_state
  types :: "minecraft_type list option"
  versions :: "minecraft_version list option"
  builds :: "partial_build list option"
  tasks :: "task list"

definition initial_system :: system where
  "initial_system = \<lparr> app = initial_state, types = None, versions = None, builds = None,
     tasks = [] \<rparr>"

datatype event =
    TypesArrive
  | VersionsArrive
  | BuildsArrive
  | SelectType minecraft_type
  | SelectVersion minecraft_version
  | OpenBuild partial_build
  | BuildPanel bool
  | ToggleSnapshots
  | DragEnter
  | DragOver
  | DragLeave
  | Drop "jar_file list"
  | ReaderLoaded nat
  | DigestDone nat
  | LookupSettled nat "api_error + partial_build"
  | JarPanel bool

text \<open>
  Modelled from the spec: the catalog cache discards a list when its key changes, and the
  new key has no data until its list arrives. The versions key carries the type, the
  builds key the type and the version.
\<close>

definition rekey :: "app_state \<Rightarrow> system \<Rightarrow> system" where
  "rekey old sys =
     sys\<lparr>versions := (if type (app sys) = type old then versions sys else None),
         builds := (if type (app sys) = type old \<and> version (app sys) = version old
                    then builds sys else None)\<rparr>"

definition run_types_effect :: "system \<Rightarrow> js_error + system" where
  "run_types_effect sys =
     (case types_effect (types sys) (app sys) of
        Inl e \<Rightarrow> Inl e
      | Inr a \<Rightarrow> Inr (rekey (app sys) (sys\<lparr>app := a\<rparr>)))"

definition run_version_effect :: "system \<Rightarrow> js_error + system" where
  "run_version_effect sys =
     (case version_effect (versions sys) (app sys) of
        Inl e \<Rightarrow> Inl e
      | Inr a \<Rightarrow> Inr (rekey (app sys) (sys\<lparr>app := a\<rparr>)))"

definition task_at :: "task list \<Rightarrow> nat \<Rightarrow> task" where
  "task_at ts i = (if i < length ts then ts ! i else Done)"

text \<open>
  One event. Arrivals store the list the catalog answers for the current key and run the
  effect that depends on it; a click is taken only on a button that is rendered and
  enabled; a completion is taken only by the attempt that awaits it.
\<close>

fun step :: "catalog \<Rightarrow> event \<Rightarrow> system \<Rightarrow> js_error + system" where
  "step c TypesArrive sys = run_types_effect (sys\<lparr>types := Some (cat_types c)\<rparr>)"
| "step c VersionsArrive sys =
     (case versions_fetcher (type (app sys)) of
        Some (ApiGetVersions t) \<Rightarrow> run_version_effect (sys\<lparr>versions := Some (cat_versions c t)\<rparr>)
      | _ \<Rightarrow> Inr sys)"
| "step c BuildsArrive sys =
     (case builds_fetcher (type (app sys)) (version (app sys)) of
        Some (ApiGetBuilds t v) \<Rightarrow> Inr (sys\<lparr>builds := Some (cat_builds c t v)\<rparr>)
      | _ \<Rightarrow> Inr sys)"
| "step c (SelectType t) sys =
     (case types sys of
        Some ts \<Rightarrow>
          if t \<in> set ts \<and> Some (type_identifier t) \<noteq> type (app sys)
          then Inr (rekey (app sys) (sys\<lparr>app := select_type t (app sys)\<rparr>))
          else Inr sys
      | None \<Rightarrow> Inr sys)"
| "step c (SelectVersion v) sys =
     (case (versions sys, types sys) of
        (Some vs, Some ts) \<Rightarrow>
          if v \<in> set (rendered_versions vs (app sys)) \<and> derived_id v \<noteq> version (app sys)
          then run_version_effect (rekey (app sys) (sys\<lparr>app := select_version v (app sys)\<rparr>))
          else Inr sys
      | _ \<Rightarrow> Inr sys)"
| "step c (OpenBuild b) sys =
     (case (builds sys, versions sys, types sys) of
        (Some bs, Some vs, Some ts) \<Rightarrow>
          if b \<in> set bs \<and> Some (build_id b) \<noteq> map_option build_id (build (app sys))
          then Inr (sys\<lparr>app := open_build b (app sys)\<rparr>)
          else Inr sys
      | _ \<Rightarrow> Inr sys)"
| "step c (BuildPanel opn) sys = Inr (sys\<lparr>app := build_onOpenChange opn (app sys)\<rparr>)"
| "step c ToggleSnapshots sys = Inr (sys\<lparr>app := toggle_snapshots (app sys)\<rparr>)"
| "step c DragEnter sys = Inr (sys\<lparr>app := dragenter (app sys)\<rparr>)"
| "step c DragOver sys = Inr (sys\<lparr>app := dragover (app sys)\<rparr>)"
| "step c DragLeave sys = Inr (sys\<lparr>app := dragleave (app sys)\<rparr>)"
| "step c (Drop files) sys =
     (case drop_handler files (app sys) of
        (a, None) \<Rightarrow> Inr (sys\<lparr>app := a\<rparr>)
      | (a, Some f) \<Rightarrow> Inr (sys\<lparr>app := a, tasks := tasks sys @ [Reading f]\<rparr>))"
| "step c (ReaderLoaded i) sys =
     (case task_at (tasks sys) i of
        Reading f \<Rightarrow>
          Inr (sys\<lparr>app := onload_begin (app sys), tasks := (tasks sys)[i := Digesting f]\<rparr>)
      | _ \<Rightarrow> Inr sys)"
| "step c (DigestDone i) sys =
     (case task_at (tasks sys) i of
        Digesting f \<Rightarrow> Inr (sys\<lparr>tasks := (tasks sys)[i := Lookup (jar_hash f)]\<rparr>)
      | _ \<Rightarrow> Inr sys)"
| "step c (LookupSettled i r) sys =
     (case task_at (tasks sys) i of
        Lookup h \<Rightarrow> Inr (sys\<lparr>app := lookup_settled r (app sys), tasks := (tasks sys)[i := Done]\<rparr>)
      | _ \<Rightarrow> Inr sys)"
| "step c (JarPanel opn) sys = Inr (sys\<lparr>app := jar_onOpenChange opn (app sys)\<rparr>)"

fun run :: "catalog \<Rightarrow> event list \<Rightarrow> system \<Rightarrow> js_error + system" where
  "run c [] sys = Inr sys"
| "run c (e # es) sys = (case step c e sys of Inl x \<Rightarrow> Inl x | Inr sys' \<Rightarrow> run c es sys')"





section \<open>Sample data\<close>

definition mk_version :: "string \<Rightarrow> version_type option \<Rightarrow> minecraft_version" where
  "mk_version i t = \<lparr> latest = \<lparr> versionId = Some i, projectVersionId = None \<rparr>,
     vtype = t, vbuilds = 1 \<rparr>"

definition mk_type :: "string \<Rightarrow> minecraft_type" where
  "mk_type i = \<lparr> type_identifier = i, name = i, experimental = False, deprecated = False,
     tbuilds = 1 \<rparr>"

definition mk_build :: "int \<Rightarrow> string \<Rightarrow> string \<Rightarrow> partial_build" where
  "mk_build n t v = \<lparr> build_id = n, build_type = Some t, build_versionId = Some v,
     build_projectVersionId = None, buildNumber = 1, jarSize = None, zipSize = None,
     created = [] \<rparr>"

text \<open>
  Three types: \<open>vanilla\<close> and \<open>paper\<close> with one release each, and \<open>purpur\<close> with two,
  the second of which has the identifier of the release of \<open>vanilla\<close>.
\<close>

definition sample_catalog :: catalog where
  "sample_catalog = \<lparr>
     cat_types = [mk_type ''vanilla'', mk_type ''paper'', mk_type ''purpur''],
     cat_versions = (\<lambda>t. if t = ''vanilla'' then [mk_version ''1.21'' (Some RELEASE)]
                          else if t = ''paper'' then [mk_version ''1.20'' (Some RELEASE)]
                          else if t = ''purpur''
                            then [mk_version ''1.21.1'' (Some RELEASE), mk_version ''1.21'' (Some RELEASE)]
                          else []),
     cat_builds = (\<lambda>t v. if t = ''vanilla'' \<and> v = ''1.21'' then [mk_build 1 t v]
                          else if t = ''paper'' \<and> v = ''1.20'' then [mk_build 2 t v]
                          else []) \<rparr>"


text \<open>Two files dropped one after the other, both read, both digested.\<close>

definition two_reading :: system where
  "two_reading =
     initial_system\<lparr>app := initial_state\<lparr>isJarDropLoading := True\<rparr>,
       tasks := [Reading [1], Reading [2]]\<rparr>"

definition two_digesting :: system where
  "two_digesting = two_reading\<lparr>tasks := [Digesting [1], Digesting [2]]\<rparr>"

definition two_lookups :: system where
  "two_lookups = two_reading\<lparr>tasks := [Lookup (jar_hash [1]), Lookup (jar_hash [2])]\<rparr>"

section \<open>Auxiliary facts\<close>


lemmas handler_defs = select_type_def select_version_def open_build_def build_onOpenChange_def
  dragenter_def dragover_def dragleave_def drop_handler_def onload_begin_def lookup_settled_def
  jar_onOpenChange_def rekey_def run_types_effect_def run_version_effect_def task_at_def
  types_effect_def version_effect_def js_index_def derived_id_def nullish_def truthy_def
  release_like_def versions_fetcher_def builds_fetcher_def initial_system_def initial_state_def

subsection \<open>Array search\<close>

lemma findIndex_find: "js_index xs (findIndex P xs) = List.find P xs"
proof (induction xs)
  case Nil
  show ?case by (simp add: js_index_def)
next
  case (Cons x xs)
  show ?case
  proof (cases "P x")
    case True
    then show ?thesis by (simp add: js_index_def)
  next
    case False
    show ?thesis
    proof (cases "findIndex P xs < 0")
      case True
      with Cons.IH have "List.find P xs = None" by (simp add: js_index_def)
      with False True show ?thesis by (simp add: js_index_def Let_def)
    next
      case nonneg: False
      then have "nat (findIndex P xs + 1) = Suc (nat (findIndex P xs))" by simp
      with False nonneg Cons.IH show ?thesis
        by (auto simp add: js_index_def Let_def)
    qed
  qed
qed

subsection \<open>The version effect\<close>

lemma version_effect_Some:
  "version_effect (Some vs) s =
     (if List.find (\<lambda>v. derived_id v = version s) vs = None
      then (case List.find release_like vs of
              None \<Rightarrow> Inl TypeError
            | Some v \<Rightarrow> Inr (s\<lparr>version := derived_id v\<rparr>))
      else Inr s)"
  by (simp add: version_effect_def Let_def findIndex_find)

text \<open>When a release or untagged entry exists, the first one is selected.\<close>

lemma version_effect_first_release:
  "List.find (\<lambda>v. derived_id v = version s) vs = None \<Longrightarrow> List.find release_like vs = Some v
   \<Longrightarrow> version_effect (Some vs) s = Inr (s\<lparr>version := derived_id v\<rparr>)"
  by (simp add: version_effect_Some)

text \<open>When none exists, the effect throws, whatever the list.\<close>

lemma version_effect_no_release:
  "List.find (\<lambda>v. derived_id v = version s) vs = None \<Longrightarrow> \<forall>v \<in> set vs. \<not> release_like v
   \<Longrightarrow> version_effect (Some vs) s = Inl TypeError"
proof -
  assume a: "List.find (\<lambda>v. derived_id v = version s) vs = None"
    and b: "\<forall>v \<in> set vs. \<not> release_like v"
  from b have "List.find release_like vs = None" by (simp add: find_None_iff)
  with a show ?thesis by (simp add: version_effect_Some)
qed


subsection \<open>Steps of the page\<close>


















subsection \<open>Attempts of the fingerprint flow\<close>

text \<open>
  Two files dropped in a row, both read and digested: the held result at the end is the
  build of the lookup that settles last, the first file's or the second's.
\<close>

lemma two_drops_settled:
  "\<exists>sys'. run c [Drop (f1 # fs1), Drop (f2 # fs2),
               ReaderLoaded (length (tasks sys)), ReaderLoaded (Suc (length (tasks sys))),
               DigestDone (length (tasks sys)), DigestDone (Suc (length (tasks sys))),
               LookupSettled (Suc (length (tasks sys))) (Inr b2),
               LookupSettled (length (tasks sys)) (Inr b1)] sys = Inr sys'
        \<and> jarDropBuild (app sys') = Some b1 \<and> \<not> isJarDropLoading (app sys')
        \<and> tasks sys' = tasks sys @ [Done, Done]"
  by (simp add: drop_handler_def js_index_def task_at_def onload_begin_def lookup_settled_def
      nth_append list_update_append)

lemma two_drops_settled_in_order:
  "\<exists>sys'. run c [Drop (f1 # fs1), Drop (f2 # fs2),
               ReaderLoaded (length (tasks sys)), ReaderLoaded (Suc (length (tasks sys))),
               DigestDone (length (tasks sys)), DigestDone (Suc (length (tasks sys))),
               LookupSettled (length (tasks sys)) (Inr b1),
               LookupSettled (Suc (length (tasks sys))) (Inr b2)] sys = Inr sys'
        \<and> jarDropBuild (app sys') = Some b2 \<and> \<not> isJarDropLoading (app sys')
        \<and> tasks sys' = tasks sys @ [Done, Done]"
  by (simp add: drop_handler_def js_index_def task_at_def onload_begin_def lookup_settled_def
      nth_append list_update_append)


text \<open>
  A failed lookup only clears the loading flag, whatever the failure; a file dragged and
  dropped on the idle page, whose lookup fails, leaves the page idle again.
\<close>

lemma lookup_failure_clears_loading:
  "task_at (tasks sys) i = Lookup h \<Longrightarrow>
     step c (LookupSettled i (Inl e)) sys
       = Inr (sys\<lparr>app := (app sys)\<lparr>isJarDropLoading := False\<rparr>, tasks := (tasks sys)[i := Done]\<rparr>)"
  by (simp add: lookup_settled_def)

lemma lookup_failure_from_idle:
  "is_Idle (app sys) \<Longrightarrow>
     \<exists>sys'. run c [DragEnter, Drop (f # fs), ReaderLoaded (length (tasks sys)),
                 DigestDone (length (tasks sys)), LookupSettled (length (tasks sys)) (Inl e)] sys
               = Inr sys'
        \<and> is_Idle (app sys') \<and> \<not> jar_drawer_open (app sys')"
  by (simp add: dragenter_def drop_handler_def js_index_def task_at_def onload_begin_def
      lookup_settled_def is_Idle_def jar_drawer_open_def)

subsection \<open>The digest and its rendering\<close>

lemma length_be_bytes: "length (be_bytes n x) = n"
  by (induction n arbitrary: x) simp_all

lemma be_bytes_range: "b \<in> set (be_bytes n x) \<Longrightarrow> 0 \<le> b \<and> b < 256"
  by (induction n arbitrary: x) auto

lemma length_state_bytes: "length (state_bytes st) = 32"
  by (simp add: state_bytes_def length_be_bytes split: prod.split)

lemma state_bytes_range: "b \<in> set (state_bytes st) \<Longrightarrow> 0 \<le> b \<and> b < 256"
  by (auto simp add: state_bytes_def split: prod.splits dest: be_bytes_range)

lemma length_sha256: "length (sha256 bs) = 32"
  by (simp add: sha256_def length_state_bytes)

lemma sha256_range: "n \<in> set (sha256 bs) \<Longrightarrow> n < 256"
  by (auto simp add: sha256_def dest!: state_bytes_range)

lemma length_hex_digits: "length hex_digits = 16"
  by (simp add: hex_digits_def)

lemma toString16_digit: "n < 16 \<Longrightarrow> toString16 n = [hex_digits ! n]"
  by (simp add: toString16.simps)

lemma byte_hex:
  assumes "b < 256"
  shows "padStart 2 (CHR ''0'') (toString16 b) = [hex_digits ! (b div 16), hex_digits ! (b mod 16)]"
proof (cases "b < 16")
  case True
  then have "toString16 b = [hex_digits ! b]" by (rule toString16_digit)
  moreover have "hex_digits ! 0 = CHR ''0''" by (simp add: hex_digits_def)
  ultimately show ?thesis using True by (simp add: padStart_def)
next
  case False
  from assms have "b div 16 < 16" by simp
  then have "toString16 (b div 16) = [hex_digits ! (b div 16)]" by (rule toString16_digit)
  with False have "toString16 b = [hex_digits ! (b div 16), hex_digits ! (b mod 16)]"
    by (subst toString16.simps) simp
  then show ?thesis by (simp add: padStart_def)
qed

lemma hashHex_spec_hex: "\<forall>b \<in> set ds. b < 256 \<Longrightarrow> hashHex ds = spec_hex ds"
  by (induction ds) (simp_all add: hashHex_def spec_hex_def byte_hex)

lemma length_spec_hex: "length (spec_hex ds) = 2 * length ds"
  by (induction ds) (simp_all add: spec_hex_def)

lemma hex_digit_mem: "n < 16 \<Longrightarrow> hex_digits ! n \<in> set hex_digits"
  by (simp add: length_hex_digits)

lemma spec_hex_chars: "\<forall>b \<in> set ds. b < 256 \<Longrightarrow> set (spec_hex ds) \<subseteq> set hex_digits"
proof (induction ds)
  case Nil
  show ?case by (simp add: spec_hex_def)
next
  case (Cons d ds)
  from Cons.prems have "d < 256" by simp
  then have "d div 16 < 16" by simp
  then have "hex_digits ! (d div 16) \<in> set hex_digits" by (rule hex_digit_mem)
  moreover have "hex_digits ! (d mod 16) \<in> set hex_digits" by (rule hex_digit_mem) simp
  moreover from Cons.prems have "\<forall>b \<in> set ds. b < 256" by simp
  then have "set (spec_hex ds) \<subseteq> set hex_digits" by (rule Cons.IH)
  ultimately show ?case by (simp add: spec_hex_def)
qed

text \<open>The digest of the empty file, stage by stage: one padded block, one compression.\<close>

lemma sha_pad_empty: "pad_message [] = 128 # replicate 63 0"
  by code_simp

lemma sha_blocks_empty:
  "map (\<lambda>blk. map be_word (chunks 4 blk)) (chunks 64 (128 # replicate 63 (0::int)))
   = [2147483648 # replicate 15 0]"
  by code_simp

lemma sha_compress_empty:
  "compress H0 (2147483648 # replicate 15 0)
   = (3820012610, 2566659092, 2600203464, 2574235940,
      665731556, 1687917388, 2761267483, 2018687061)"
  by code_simp

lemma sha_bytes_empty:
  "map nat (state_bytes (3820012610, 2566659092, 2600203464, 2574235940,
      665731556, 1687917388, 2761267483, 2018687061))
   = [227, 176, 196, 66, 152, 252, 28, 20, 154, 251, 244, 200, 153, 111, 185, 36,
      39, 174, 65, 228, 100, 155, 147, 76, 164, 149, 153, 27, 120, 82, 184, 85]"
  by code_simp

lemma sha256_empty:
  "sha256 []
   = [227, 176, 196, 66, 152, 252, 28, 20, 154, 251, 244, 200, 153, 111, 185, 36,
      39, 174, 65, 228, 100, 155, 147, 76, 164, 149, 153, 27, 120, 82, 184, 85]"
  by (simp only: sha256_def sha_pad_empty sha_blocks_empty foldl.simps sha_compress_empty
      sha_bytes_empty)

lemma hashHex_empty_digest:
  "hashHex [227, 176, 196, 66, 152, 252, 28, 20, 154, 251, 244, 200, 153, 111, 185, 36,
      39, 174, 65, 228, 100, 155, 147, 76, 164, 149, 153, 27, 120, 82, 184, 85]
   = ''e3b0c44298fc1c149afbf4c8996fb92427ae41e4649b934ca495991b7852b855''"
  by code_simp

lemma jar_hash_empty:
  "jar_hash [] = ''e3b0c44298fc1c149afbf4c8996fb92427ae41e4649b934ca495991b7852b855''"
  by (simp only: jar_hash_def sha256_empty hashHex_empty_digest)

section \<open>Properties\<close>

subsection \<open>Version auto-selection\<close>

text \<open>
  C1: when the arriving version list holds no release and no untagged entry, the version
  effect does not fall back to the first entry. On the one-entry list holding the snapshot
  \<open>1.21-pre1\<close>, with no version selected, \<^verbatim>\<open>findIndex\<close> yields \<open>-1\<close>, the entry read at
  that index is \<^verbatim>\<open>undefined\<close>, and the effect throws instead of selecting it.
\<close>

theorem version_effect_all_snapshot_faults:
  "version_effect (Some [mk_version ''1.21-pre1'' (Some SNAPSHOT)]) initial_state = Inl TypeError"
  by (simp add: version_effect_def mk_version_def initial_state_def derived_id_def nullish_def
      release_like_def js_index_def)

subsection \<open>Selection consistency\<close>




subsection \<open>Dropping files\<close>

text \<open>
  C3: a drop that carries no file, made while dragging, does not end in the idle state.
  The listener sets the loading flag before it looks at the payload and returns early, so
  the flow is left loading with no attempt started, and the drawer's dismissal handler
  leaves that state as it is.
\<close>

theorem drop_zero_files_stays_loading:
  "drop_handler [] (dragenter initial_state) = (initial_state\<lparr>isJarDropLoading := True\<rparr>, None)
   \<and> is_Hashing (fst (drop_handler [] (dragenter initial_state)))
   \<and> \<not> is_Idle (fst (drop_handler [] (dragenter initial_state)))
   \<and> jar_onOpenChange False (fst (drop_handler [] (dragenter initial_state)))
       = fst (drop_handler [] (dragenter initial_state))"
  by (simp add: handler_defs is_Hashing_def is_Idle_def)

text \<open>
  C4, as the code has it: a drop adds an attempt and leaves the earlier ones pending;
  every pending attempt, the latest or not, goes on through its read, its digest and its
  lookup, and a lookup that settles successfully writes its build as the held result and
  clears the loading flag. So when two files are dropped in a row, the first before the
  second's lookup has settled, the held result at the end is the build of the lookup that
  settles last: the first file's when its lookup is the slower one, the second's
  otherwise.
\<close>

theorem attempts_are_never_cancelled:
  "(\<exists>sys1. step c (Drop (f # fs)) sys = Inr sys1 \<and> tasks sys1 = tasks sys @ [Reading f])
   \<and> (task_at (tasks sys) i = Reading f \<longrightarrow>
        step c (ReaderLoaded i) sys
          = Inr (sys\<lparr>app := (app sys)\<lparr>isJarDropLoading := True\<rparr>,
                     tasks := (tasks sys)[i := Digesting f]\<rparr>))
   \<and> (task_at (tasks sys) i = Digesting f \<longrightarrow>
        step c (DigestDone i) sys = Inr (sys\<lparr>tasks := (tasks sys)[i := Lookup (jar_hash f)]\<rparr>))
   \<and> (task_at (tasks sys) i = Lookup h \<longrightarrow>
        step c (LookupSettled i (Inr b)) sys
          = Inr (sys\<lparr>app := (app sys)\<lparr>jarDropBuild := Some b, isJarDropLoading := False\<rparr>,
                     tasks := (tasks sys)[i := Done]\<rparr>))
   \<and> (\<exists>sys'. run c [Drop (f1 # fs1), Drop (f2 # fs2),
               ReaderLoaded (length (tasks sys)), ReaderLoaded (Suc (length (tasks sys))),
               DigestDone (length (tasks sys)), DigestDone (Suc (length (tasks sys))),
               LookupSettled (Suc (length (tasks sys))) (Inr b2),
               LookupSettled (length (tasks sys)) (Inr b1)] sys = Inr sys'
        \<and> jarDropBuild (app sys') = Some b1 \<and> \<not> isJarDropLoading (app sys')
        \<and> tasks sys' = tasks sys @ [Done, Done])
   \<and> (\<exists>sys'. run c [Drop (f1 # fs1), Drop (f2 # fs2),
               ReaderLoaded (length (tasks sys)), ReaderLoaded (Suc (length (tasks sys))),
               DigestDone (length (tasks sys)), DigestDone (Suc (length (tasks sys))),
               LookupSettled (length (tasks sys)) (Inr b1),
               LookupSettled (Suc (length (tasks sys))) (Inr b2)] sys = Inr sys'
        \<and> jarDropBuild (app sys') = Some b2 \<and> \<not> isJarDropLoading (app sys')
        \<and> tasks sys' = tasks sys @ [Done, Done])"
proof -
  have d: "\<exists>sys1. step c (Drop (f # fs)) sys = Inr sys1 \<and> tasks sys1 = tasks sys @ [Reading f]"
    by (simp add: drop_handler_def js_index_def)
  have r: "task_at (tasks sys) i = Reading f \<longrightarrow>
        step c (ReaderLoaded i) sys
          = Inr (sys\<lparr>app := (app sys)\<lparr>isJarDropLoading := True\<rparr>,
                     tasks := (tasks sys)[i := Digesting f]\<rparr>)"
    by (simp add: onload_begin_def)
  have g: "task_at (tasks sys) i = Digesting f \<longrightarrow>
        step c (DigestDone i) sys = Inr (sys\<lparr>tasks := (tasks sys)[i := Lookup (jar_hash f)]\<rparr>)"
    by simp
  have l: "task_at (tasks sys) i = Lookup h \<longrightarrow>
        step c (LookupSettled i (Inr b)) sys
          = Inr (sys\<lparr>app := (app sys)\<lparr>jarDropBuild := Some b, isJarDropLoading := False\<rparr>,
                     tasks := (tasks sys)[i := Done]\<rparr>)"
    by (simp add: lookup_settled_def)
  from d r g l two_drops_settled [of c f1 fs1 f2 fs2 sys b2 b1]
    two_drops_settled_in_order [of c f1 fs1 f2 fs2 sys b1 b2]
  show ?thesis by blast
qed

text \<open>
  The theorem at the first of two dropped files, the second still pending, in each of its
  three stages.
\<close>

theorem attempts_are_never_cancelled_witness:
  "run sample_catalog [Drop [[1]], Drop [[2]]] initial_system = Inr two_reading
   \<and> task_at (tasks two_reading) 0 = Reading [1]
   \<and> step sample_catalog (ReaderLoaded 0) two_reading
       = Inr (two_reading\<lparr>tasks := [Digesting [1], Reading [2]]\<rparr>)
   \<and> run sample_catalog [ReaderLoaded 0, ReaderLoaded 1] two_reading = Inr two_digesting
   \<and> task_at (tasks two_digesting) 0 = Digesting [1]
   \<and> step sample_catalog (DigestDone 0) two_digesting
       = Inr (two_digesting\<lparr>tasks := [Lookup (jar_hash [1]), Digesting [2]]\<rparr>)
   \<and> run sample_catalog [DigestDone 0, DigestDone 1] two_digesting = Inr two_lookups
   \<and> task_at (tasks two_lookups) 0 = Lookup (jar_hash [1])
   \<and> step sample_catalog (LookupSettled 0 (Inr (mk_build 1 ''vanilla'' ''1.21''))) two_lookups
       = Inr (two_lookups\<lparr>app := initial_state\<lparr>jarDropBuild := Some (mk_build 1 ''vanilla'' ''1.21'')\<rparr>,
                tasks := [Done, Lookup (jar_hash [2])]\<rparr>)"
  using attempts_are_never_cancelled [of sample_catalog "[1]" "[]" two_reading 0]
    attempts_are_never_cancelled [of sample_catalog "[1]" "[]" two_digesting 0]
    attempts_are_never_cancelled [of sample_catalog "[1]" "[]" two_lookups 0 "jar_hash [1]"
      "mk_build 1 ''vanilla'' ''1.21''"]
  by (simp add: two_reading_def two_digesting_def two_lookups_def initial_system_def
      initial_state_def drop_handler_def js_index_def task_at_def onload_begin_def)

text \<open>
  The claim as stated fails: two files are dropped one after the other, the second lookup
  settles first and the first lookup last; the held result is the first file's build.
\<close>

theorem first_drop_overwrites_second:
  "map_sum id (\<lambda>sys. (jarDropBuild (app sys), tasks sys))
     (run sample_catalog
        [Drop [[1]], Drop [[2]], ReaderLoaded 0, ReaderLoaded 1, DigestDone 0, DigestDone 1,
         LookupSettled 1 (Inr (mk_build 2 ''paper'' ''1.20'')),
         LookupSettled 0 (Inr (mk_build 1 ''vanilla'' ''1.21''))]
        initial_system)
   = Inr (Some (mk_build 1 ''vanilla'' ''1.21''), [Done, Done])"
  by (simp add: handler_defs)

subsection \<open>The digest\<close>

text \<open>
  C5: the hash of a dropped file is a function of its bytes alone; the digest has 32
  bytes and is rendered as two lowercase hex digits for each byte, in byte order, 64
  characters in all; the hash of the empty file is
  \<open>e3b0c44298fc1c149afbf4c8996fb92427ae41e4649b934ca495991b7852b855\<close>.
\<close>

theorem jar_hash_digest:
  "length (sha256 bs) = 32
   \<and> jar_hash bs = spec_hex (sha256 bs)
   \<and> length (jar_hash bs) = 64
   \<and> set (jar_hash bs) \<subseteq> set ''0123456789abcdef''
   \<and> (bs' = bs \<longrightarrow> jar_hash bs' = jar_hash bs)
   \<and> jar_hash [] = ''e3b0c44298fc1c149afbf4c8996fb92427ae41e4649b934ca495991b7852b855''"
proof -
  have r: "\<forall>b \<in> set (sha256 bs). b < 256" by (simp add: sha256_range)
  have e: "jar_hash bs = spec_hex (sha256 bs)"
    unfolding jar_hash_def using r by (rule hashHex_spec_hex)
  have l: "length (jar_hash bs) = 64"
    by (simp add: e length_spec_hex length_sha256)
  have c: "set (jar_hash bs) \<subseteq> set ''0123456789abcdef''"
    using spec_hex_chars [OF r] by (simp only: e hex_digits_def)
  from e l c show ?thesis by (simp add: length_sha256 jar_hash_empty)
qed

text \<open>The theorem at the one-byte file \<open>a\<close>, hashed twice.\<close>

theorem jar_hash_digest_witness:
  "([97] :: byte list) = [97]
   \<and> jar_hash [97] = jar_hash [97]
   \<and> length (jar_hash [97]) = 64
   \<and> jar_hash [97] = spec_hex (sha256 [97])"
  using jar_hash_digest [of "[97]" "[97]"] by blast

subsection \<open>The snapshot filter\<close>

text \<open>
  C6: with the snapshots flag unset or false, the rendered list is the version list
  filtered to the entries that are untagged, or tagged as release, or whose derived
  identifier is the selected version; an entry is rendered if and only if it is one of
  those.
\<close>

theorem rendered_versions_without_snapshots:
  "\<not> truthy_bool (includeSnapshots s) \<Longrightarrow>
   rendered_versions vs s =
     filter (\<lambda>v. vtype v = None \<or> vtype v = Some RELEASE \<or> derived_id v = version s) vs
   \<and> (v \<in> set (rendered_versions vs s) \<longleftrightarrow>
        v \<in> set vs \<and> (vtype v = None \<or> vtype v = Some RELEASE \<or> derived_id v = version s))"
  by (auto simp add: rendered_versions_def intro: filter_cong)

text \<open>The theorem on a release, a snapshot and the selected snapshot.\<close>

theorem rendered_versions_without_snapshots_witness:
  "\<not> truthy_bool (includeSnapshots (initial_state\<lparr>version := Some ''1.22-pre2''\<rparr>))
   \<and> rendered_versions
        [mk_version ''1.21'' (Some RELEASE), mk_version ''1.22-pre1'' (Some SNAPSHOT),
         mk_version ''1.22-pre2'' (Some SNAPSHOT), mk_version ''1.0'' None]
        (initial_state\<lparr>version := Some ''1.22-pre2''\<rparr>)
      = [mk_version ''1.21'' (Some RELEASE), mk_version ''1.22-pre2'' (Some SNAPSHOT),
         mk_version ''1.0'' None]"
  using rendered_versions_without_snapshots
    [of "initial_state\<lparr>version := Some ''1.22-pre2''\<rparr>"
        "[mk_version ''1.21'' (Some RELEASE), mk_version ''1.22-pre1'' (Some SNAPSHOT),
          mk_version ''1.22-pre2'' (Some SNAPSHOT), mk_version ''1.0'' None]"
        "mk_version ''1.21'' (Some RELEASE)"]
  by (simp add: initial_state_def truthy_bool_def mk_version_def derived_id_def nullish_def)

subsection \<open>Failed lookups\<close>

text \<open>
  C7: a failed lookup does not always end with no build held. A first file is dropped and
  identified; a second file is dropped while its build is shown, and its lookup finds no
  match. The catch branch clears the loading flag and nothing else: the flow is out of
  hashing, still holds the first file's build, and the drawer is open and shows that build.
\<close>

theorem failed_lookup_keeps_earlier_build:
  "map_sum id (\<lambda>sys. (jarDropBuild (app sys), isJarDropLoading (app sys),
                      jar_drawer_open (app sys), jar_drawer_content (app sys)))
     (run sample_catalog
        [DragEnter, Drop [[1]], ReaderLoaded 0, DigestDone 0,
         LookupSettled 0 (Inr (mk_build 1 ''vanilla'' ''1.21'')),
         DragEnter, Drop [[2]], ReaderLoaded 1, DigestDone 1, LookupSettled 1 (Inl NotFound)]
        initial_system)
   = Inr (Some (mk_build 1 ''vanilla'' ''1.21''), False, True,
          Result (mk_build 1 ''vanilla'' ''1.21''))"
  by (simp add: handler_defs jar_drawer_open_def jar_drawer_content_def)

subsection \<open>Type auto-selection\<close>

text \<open>
  C8: when a non-empty type list arrives, the type effect selects the list's first
  type if no type is selected, and leaves the state as it is if one is: a selected type
  is never overridden.
\<close>

theorem types_effect_selects_first:
  "types_effect (Some (t # ts)) s =
     Inr (if truthy (type s) then s else s\<lparr>type := Some (type_identifier t)\<rparr>)"
  by (simp add: types_effect_def js_index_def)

text \<open>The theorem on the list \<open>vanilla\<close>, \<open>paper\<close>: with no type, and with \<open>paper\<close> selected.\<close>

theorem types_effect_selects_first_witness:
  "types_effect (Some [mk_type ''vanilla'', mk_type ''paper'']) initial_state
     = Inr (initial_state\<lparr>type := Some ''vanilla''\<rparr>)
   \<and> types_effect (Some [mk_type ''vanilla'', mk_type ''paper''])
       (initial_state\<lparr>type := Some ''paper''\<rparr>)
     = Inr (initial_state\<lparr>type := Some ''paper''\<rparr>)"
  using types_effect_selects_first [of "mk_type ''vanilla''" "[mk_type ''paper'']" initial_state]
    types_effect_selects_first [of "mk_type ''vanilla''" "[mk_type ''paper'']"
      "initial_state\<lparr>type := Some ''paper''\<rparr>"]
  by (simp add: truthy_def initial_state_def mk_type_def)

subsection \<open>The fetch guard\<close>

text \<open>
  C9: with the type unset, the versions fetcher issues no request, and the versions key
  is settled with no data, which is not a loading state; with the type or the version
  unset, the same holds of the builds fetcher and the builds key.
\<close>

theorem fetch_guard:
  "(\<not> truthy t \<longrightarrow> versions_fetcher t = None
       \<and> (key_state_of (versions_fetcher t) :: minecraft_version list key_state) = Settled None
       \<and> (key_state_of (versions_fetcher t) :: minecraft_version list key_state) \<noteq> Loading c)
   \<and> (\<not> truthy t \<or> \<not> truthy v \<longrightarrow> builds_fetcher t v = None
       \<and> (key_state_of (builds_fetcher t v) :: partial_build list key_state) = Settled None
       \<and> (key_state_of (builds_fetcher t v) :: partial_build list key_state) \<noteq> Loading c)"
  by (auto simp add: versions_fetcher_def builds_fetcher_def key_state_of_def split: option.splits)

text \<open>The theorem with no type, and with a type and no version.\<close>

theorem fetch_guard_witness:
  "\<not> truthy None
   \<and> versions_fetcher None = None
   \<and> (key_state_of (versions_fetcher None) :: minecraft_version list key_state) = Settled None
   \<and> builds_fetcher (Some ''vanilla'') None = None
   \<and> (key_state_of (builds_fetcher (Some ''vanilla'') None) :: partial_build list key_state)
       = Settled None"
  using fetch_guard [of None "ApiGetVersions ''vanilla''" None]
    fetch_guard [of "Some ''vanilla''" "ApiGetBuilds ''vanilla'' ''1.21''" None]
  by (auto simp add: truthy_def)

subsection \<open>Dismissal while hashing\<close>

text \<open>
  C10: while the loading flag is set, the dismissal handler of the fingerprint drawer
  returns the state it was given, whatever the requested open value: the drag flag, the
  loading flag and the held result are unchanged.
\<close>

theorem jar_onOpenChange_loading_noop:
  "isJarDropLoading s \<Longrightarrow> jar_onOpenChange opn s = s"
  by (simp add: jar_onOpenChange_def)

text \<open>The theorem at a dismissal of the loading drawer.\<close>

theorem jar_onOpenChange_loading_noop_witness:
  "isJarDropLoading (initial_state\<lparr>isJarDropLoading := True\<rparr>)
   \<and> jar_onOpenChange False (initial_state\<lparr>isJarDropLoading := True\<rparr>)
       = initial_state\<lparr>isJarDropLoading := True\<rparr>"
  using jar_onOpenChange_loading_noop [of "initial_state\<lparr>isJarDropLoading := True\<rparr>" False]
  by simp

end
